theory Spec2Isabelle
  imports Complex_Main
begin

section \<open>Kd fitting of the champ package (champ/kd.py)\<close>

text \<open>
  The module is Python 3 (it uses an f-string in \<open>all_error_analysis_and_figs\<close>, and
  setup.py declares Python 3.7). Floating-point numbers are modelled by the reals; a
  float that would be infinite or not-a-number is kept outside the reals explicitly
  (\<open>NonFinite\<close> below, or an error value). Exceptions are values of \<open>py_error\<close>.
\<close>

subsection \<open>Errors and numbers\<close>

datatype py_error =
    ZeroDivisionError
  | IndexError
  | KeyError string
  | AssertionError "string option"
  | ValueError
  | TypeError
  | AttributeError
  | StopIteration
  | FloatNotFinite

text \<open>
  \<open>FloatNotFinite\<close> is not a Python exception: it marks a point where numpy would go on
  with \<open>inf\<close> or \<open>nan\<close>, which the real-number model does not follow.
\<close>

datatype npfloat = Finite real | NonFinite

text \<open>\<open>np.log\<close>: \<open>-inf\<close> at 0 and \<open>nan\<close> below 0, with a warning and no exception.\<close>

definition np_log :: "real \<Rightarrow> npfloat" where
  "np_log x = (if 0 < x then Finite (ln x) else NonFinite)"

fun np_sub :: "npfloat \<Rightarrow> npfloat \<Rightarrow> npfloat" where
  "np_sub (Finite a) (Finite b) = Finite (a - b)"
| "np_sub _ _ = NonFinite"

subsection \<open>The binding model\<close>

text \<open>
  \<open>theta\<close> of \<open>model_logL\<close>: \<^verbatim>\<open>1.0 / (1.0 + (float(Kd) / x))\<close>. Both divisions are between
  Python floats when \<open>x\<close> is a Python number, and raise on a zero divisor.
\<close>

definition theta :: "real \<Rightarrow> real \<Rightarrow> py_error + real" where
  "theta x Kd =
     (if x = 0 then Inl ZeroDivisionError
      else if 1 + Kd / x = 0 then Inl ZeroDivisionError
      else Inr (1 / (1 + Kd / x)))"

text \<open>
  \<open>ABA\<close> of \<open>fit_all_Kds\<close>: \<^verbatim>\<open>np.log(neg_cont_Kd) - np.log(Kd)\<close>. The arguments are what the
  fits returned: the logarithm of a float that is not finite is not finite, and neither is
  a difference with it.
\<close>

fun ABA :: "npfloat \<Rightarrow> npfloat \<Rightarrow> npfloat" where
  "ABA (Finite Kd) (Finite neg_cont_Kd) = np_sub (np_log neg_cont_Kd) (np_log Kd)"
| "ABA _ _ = NonFinite"

subsection \<open>The intensity array\<close>

text \<open>
  The class of \<open>self.IA\<close> is not part of the module; the attributes and the results of the
  methods that kd.py reads are fields here. An intensity list holds one entry per
  cluster, \<open>None\<close> for an absent reading; an intensity array holds the readings only.
\<close>

record IntensityArray =
  course_trait_list :: "real list"
  course_len :: nat
  target :: string
  neg_control_target :: string
  seqs :: "string list"
  modes_given_seq :: "string \<Rightarrow> real list"
  stdevs_given_seq :: "string \<Rightarrow> real list"
  medians_given_seq :: "string \<Rightarrow> real list"
  intensity_loarr_given_seq :: "string \<rightharpoonup> real list list"
  intensity_lol_given_seq :: "string \<rightharpoonup> real option list list"

subsection \<open>Imin and Imax\<close>

record Imin_result =
  Imin_neg_cont :: "real list"
  Imin_const :: real
  Imin_given_conc :: "real \<rightharpoonup> real"
  Imin_stdev :: "real list"
  Imin_stdev_given_conc :: "real \<rightharpoonup> real"

text \<open>A dict comprehension over \<open>zip\<close>: a later pair overrides an earlier one.\<close>

definition dict_of_zip :: "'k list \<Rightarrow> 'v list \<Rightarrow> ('k \<rightharpoonup> 'v)" where
  "dict_of_zip ks vs = map_of (rev (zip ks vs))"

definition find_Imin_and_background_noise :: "IntensityArray \<Rightarrow> py_error + Imin_result" where
  "find_Imin_and_background_noise ia =
     (let neg_cont = modes_given_seq ia (neg_control_target ia) in
      case neg_cont of
        [] \<Rightarrow> Inl IndexError
      | m0 # _ \<Rightarrow>
          (let sd = stdevs_given_seq ia (neg_control_target ia) in
           Inr \<lparr> Imin_neg_cont = neg_cont,
                 Imin_const = m0,
                 Imin_given_conc = dict_of_zip (course_trait_list ia) neg_cont,
                 Imin_stdev = sd,
                 Imin_stdev_given_conc = dict_of_zip (course_trait_list ia) sd \<rparr>))"

text \<open>
  \<open>Iobs\<close> of \<open>find_Imax\<close>:
  \<^verbatim>\<open>(Imax - self.Imin_const) / (1.0 + (float(Kd) / x)) + self.Imin_const\<close>.
  The inner division is between Python numbers and raises at \<open>x = 0\<close>; the outer one has
  a numpy float on the left, so a zero divisor gives a float that is not finite.
\<close>

definition Iobs :: "real \<Rightarrow> real \<Rightarrow> real \<Rightarrow> real \<Rightarrow> py_error + real" where
  "Iobs Imin_c x Kd Imax =
     (if x = 0 then Inl ZeroDivisionError
      else if 1 + Kd / x = 0 then Inl FloatNotFinite
      else Inr ((Imax - Imin_c) / (1 + Kd / x) + Imin_c))"

text \<open>
  The loop of \<open>find_Imax\<close> over \<open>zip(self.concentrations, self.Imin_neg_cont,
  perfect_medians)\<close>; \<open>perfect_Kd\<close> and \<open>Imax_const\<close> are the two values \<open>curve_fit\<close>
  returned.
\<close>

fun Imax_adjusted_loop ::
  "real \<Rightarrow> real \<Rightarrow> real \<Rightarrow> real list \<Rightarrow> real list \<Rightarrow> real list \<Rightarrow> py_error + real list"
where
  "Imax_adjusted_loop Imin_c perfect_Kd Imax_c (conc # cs) (Imin # ms) (med # ds) =
     (case Iobs Imin_c conc perfect_Kd Imax_c of
        Inl e \<Rightarrow> Inl e
      | Inr fit_Iobs \<Rightarrow>
          (let entry = (if fit_Iobs < 0.90 * Imax_c then Imax_c
                        else Imin + (1 + perfect_Kd / conc) * (med - Imin)) in
           case Imax_adjusted_loop Imin_c perfect_Kd Imax_c cs ms ds of
             Inl e \<Rightarrow> Inl e
           | Inr rest \<Rightarrow> Inr (entry # rest)))"
| "Imax_adjusted_loop Imin_c perfect_Kd Imax_c _ _ _ = Inr []"

record Imax_result =
  Imax_const :: real
  Imax_adjusted :: "real list"
  Imax_given_conc :: "real \<rightharpoonup> real"

definition find_Imax ::
  "IntensityArray \<Rightarrow> Imin_result \<Rightarrow> real \<times> real \<Rightarrow> py_error + Imax_result" where
  "find_Imax ia mn popt =
     (let perfect_Kd = fst popt; Imax_c = snd popt;
          perfect_medians = medians_given_seq ia (target ia) in
      case Imax_adjusted_loop (Imin_const mn) perfect_Kd Imax_c
             (course_trait_list ia) (Imin_neg_cont mn) perfect_medians of
        Inl e \<Rightarrow> Inl e
      | Inr adj \<Rightarrow>
          Inr \<lparr> Imax_const = Imax_c,
                Imax_adjusted = adj,
                Imax_given_conc = dict_of_zip (course_trait_list ia) adj \<rparr>)"

subsection \<open>Strings and text files\<close>


definition LF :: char where "LF = CHR 0x0A"










subsection \<open>Writing the results\<close>

text \<open>
  Modelled from the spec: \<open>misc.list_if_scalar\<close> is not part of the module. A baseline or
  saturation profile is one scalar or one value per concentration; a scalar is repeated
  to the given length and a list is kept.
\<close>

datatype profile = Scalar real | PerConc "real list"

fun list_if_scalar :: "profile \<Rightarrow> nat \<Rightarrow> real list" where
  "list_if_scalar (Scalar x) n = replicate n x"
| "list_if_scalar (PerConc xs) n = xs"













subsection \<open>Reading the results\<close>

record IAKdData =
  kd_concentrations :: "real list"
  kd_Imin :: "real list"
  kd_Imax :: "real list"
  kd_Kd :: "string \<rightharpoonup> real"
  kd_Kd_error :: "string \<rightharpoonup> real"
  kd_ABA :: "string \<rightharpoonup> real"
  kd_ABA_error :: "string \<rightharpoonup> real"
  kd_target :: string
  kd_neg_control_target :: string
  kd_neg_control_Kd :: real
  kd_log_neg_control_Kd :: npfloat
  kd_target_ABA :: real









text \<open>\<open>IAKdData.ABA_given_Kd\<close>; the argument and the result may be Python's \<open>None\<close>.\<close>

definition ABA_given_Kd :: "IAKdData \<Rightarrow> real option \<Rightarrow> npfloat option" where
  "ABA_given_Kd d Kd =
     (case Kd of
        None \<Rightarrow> None
      | Some k \<Rightarrow> Some (np_sub (kd_log_neg_control_Kd d) (np_log k)))"

subsection \<open>Python objects and the outside world\<close>

text \<open>
  The world is the state of numpy's random generator, as the sequence of raw draws still
  to come, and the text printed so far.
\<close>

type_synonym world = "(nat \<Rightarrow> nat) \<times> string list"

text \<open>
  \<open>print(text)\<close> writes the text and a newline and returns \<open>None\<close>. \<open>obj.format(...)\<close> on
  \<open>None\<close> raises AttributeError before any argument is evaluated; on a string it fills
  the \<open>{}\<close> fields in order.
\<close>

datatype pyobj = PyNone | PyStr string

definition py_print :: "string \<Rightarrow> world \<Rightarrow> pyobj \<times> world" where
  "py_print text w = (PyNone, (fst w, snd w @ [text @ [LF]]))"

fun fill_fields :: "string \<Rightarrow> string list \<Rightarrow> string" where
  "fill_fields (a # b # cs) args =
     (if a = CHR ''{'' \<and> b = CHR ''}'' then
        (case args of [] \<Rightarrow> fill_fields cs [] | x # xs \<Rightarrow> x @ fill_fields cs xs)
      else a # fill_fields (b # cs) args)"
| "fill_fields cs args = cs"

fun py_format :: "pyobj \<Rightarrow> string list \<Rightarrow> py_error + string" where
  "py_format PyNone args = Inl AttributeError"
| "py_format (PyStr s) args = Inr (fill_fields s args)"

text \<open>
  In Python 3 \<open>map(f, xs)\<close> is an iterator: it cannot be sliced or indexed. A list or an
  array can.
\<close>

datatype pyseq = PyList "real list" | PyMapObject "real list"

fun py_map_abs :: "pyseq \<Rightarrow> pyseq" where
  "py_map_abs (PyList xs) = PyMapObject (map abs xs)"
| "py_map_abs (PyMapObject xs) = PyMapObject (map abs xs)"

fun py_slice :: "pyseq \<Rightarrow> nat \<Rightarrow> nat \<Rightarrow> py_error + real list" where
  "py_slice (PyList xs) i j = Inr (take (j - i) (drop i xs))"
| "py_slice (PyMapObject xs) i j = Inl TypeError"

fun py_index :: "pyseq \<Rightarrow> nat \<Rightarrow> py_error + real" where
  "py_index (PyList xs) i = (if i < length xs then Inr (xs ! i) else Inl IndexError)"
| "py_index (PyMapObject xs) i = Inl TypeError"

text \<open>
  \<open>np.random.choice(np.arange(n), size=k, replace=True)\<close>: \<open>k\<close> independent draws from
  \<open>0, ..., n - 1\<close>; it raises ValueError on an empty population unless \<open>k = 0\<close>.
\<close>

definition np_random_choice ::
  "nat \<Rightarrow> nat \<Rightarrow> (nat \<Rightarrow> nat) \<Rightarrow> py_error + (nat list \<times> (nat \<Rightarrow> nat))" where
  "np_random_choice n k rng =
     (if n = 0 \<and> k \<noteq> 0 then Inl ValueError
      else Inr (map (\<lambda>j. rng j mod n) [0..<k], (\<lambda>j. rng (j + k))))"

text \<open>The first error of a list of results, or all the values.\<close>

fun sequence_err :: "(py_error + 'a) list \<Rightarrow> py_error + 'a list" where
  "sequence_err [] = Inr []"
| "sequence_err (r # rs) =
     (case r of
        Inl e \<Rightarrow> Inl e
      | Inr x \<Rightarrow> (case sequence_err rs of Inl e \<Rightarrow> Inl e | Inr xs \<Rightarrow> Inr (x # xs)))"

fun np_add :: "npfloat \<Rightarrow> npfloat \<Rightarrow> npfloat" where
  "np_add (Finite a) (Finite b) = Finite (a + b)"
| "np_add _ _ = NonFinite"

fun np_neg :: "npfloat \<Rightarrow> npfloat" where
  "np_neg (Finite a) = Finite (- a)"
| "np_neg NonFinite = NonFinite"

text \<open>
  An operation of numpy on two rows: elementwise on equal lengths, a row of length one is
  repeated, anything else raises ValueError.
\<close>

definition np_broadcast2 ::
  "(real \<Rightarrow> real \<Rightarrow> real) \<Rightarrow> real list \<Rightarrow> real list \<Rightarrow> py_error + real list" where
  "np_broadcast2 f xs ys =
     (if length xs = length ys then Inr (map2 f xs ys)
      else if length xs = 1 then Inr (map (f (hd xs)) ys)
      else if length ys = 1 then Inr (map (\<lambda>x. f x (hd ys)) xs)
      else Inl ValueError)"

subsection \<open>The fitting state\<close>

record KdFitIA =
  st_IA :: IntensityArray
  st_max_clust :: nat
  st_Imin :: Imin_result
  st_Imax :: Imax_result
  st_Imax_ML :: "string \<rightharpoonup> real list"
  st_sigma_consts :: "string \<rightharpoonup> real list"
  st_sigma_I :: "string \<rightharpoonup> real"

definition concentrations :: "KdFitIA \<Rightarrow> real list" where
  "concentrations st = course_trait_list (st_IA st)"

text \<open>\<open>getattr(self, Imin_name)\<close> for the names that \<open>add_Imin_type\<close> admits.\<close>

definition getattr_Imin :: "KdFitIA \<Rightarrow> string \<Rightarrow> py_error + profile" where
  "getattr_Imin st name =
     (if name = ''Imin_const'' then Inr (Scalar (Imin_const (st_Imin st)))
      else if name = ''Imin_neg_cont'' then Inr (PerConc (Imin_neg_cont (st_Imin st)))
      else Inl AttributeError)"

definition dict_get :: "(string \<rightharpoonup> 'v) \<Rightarrow> string \<Rightarrow> py_error + 'v" where
  "dict_get d k = (case d k of None \<Rightarrow> Inl (KeyError k) | Some v \<Rightarrow> Inr v)"

subsection \<open>The log-likelihood\<close>

text \<open>
  \<open>np.tile(a, (k, 1)) + np.multiply(thetas, np.tile(b, (k, 1)))\<close>, row by row; the shapes
  are checked also when there is no row (\<open>n\<close> is the width of \<open>thetas\<close>).
\<close>

definition row_combine :: "real list \<Rightarrow> real list \<Rightarrow> real list \<Rightarrow> py_error + real list" where
  "row_combine a row b =
     (case np_broadcast2 (*) row b of
        Inl e \<Rightarrow> Inl e
      | Inr m \<Rightarrow> np_broadcast2 (+) a m)"

definition tile_plus_times ::
  "nat \<Rightarrow> real list \<Rightarrow> real list list \<Rightarrow> real list \<Rightarrow> py_error + real list list" where
  "tile_plus_times n a thetas b =
     (case row_combine a (replicate n 0) b of
        Inl e \<Rightarrow> Inl e
      | Inr _ \<Rightarrow> sequence_err (map (\<lambda>row. row_combine a row b) thetas))"

text \<open>
  The list comprehension over \<open>bootstrap_idxs\<close>: the readings of the chosen clusters that
  are not \<open>None\<close>; an index past the end of the list raises IndexError.
\<close>

fun bootstrap_sample :: "real option list \<Rightarrow> nat list \<Rightarrow> py_error + real list" where
  "bootstrap_sample inten_list [] = Inr []"
| "bootstrap_sample inten_list (idx # idxs) =
     (if length inten_list \<le> idx then Inl IndexError
      else (case bootstrap_sample inten_list idxs of
              Inl e \<Rightarrow> Inl e
            | Inr rest \<Rightarrow>
                (case inten_list ! idx of None \<Rightarrow> Inr rest | Some v \<Rightarrow> Inr (v # rest))))"

definition select_intensities ::
  "nat \<Rightarrow> nat list option \<Rightarrow> real list \<Rightarrow> real option list \<Rightarrow> py_error + real list" where
  "select_intensities mc bootstrap_idxs inten_arr inten_list =
     (case bootstrap_idxs of
        Some idxs \<Rightarrow> bootstrap_sample inten_list idxs
      | None \<Rightarrow> Inr (take mc inten_arr))"

text \<open>
  One summand of the log-likelihood. The scale is a numpy float: at or below zero the
  logarithm, and so the summand, is not finite.
\<close>

definition gauss_term :: "real \<Rightarrow> real \<Rightarrow> real list \<Rightarrow> npfloat" where
  "gauss_term sigma yhat inten_arr =
     (if sigma \<le> 0 then NonFinite
      else Finite (- real (length inten_arr) * ln sigma
                   - 1 / (2 * sigma\<^sup>2) * sum_list (map (\<lambda>I. (I - yhat)\<^sup>2) inten_arr)))"

text \<open>The loop over \<open>enumerate(zip(loarr, lol))\<close> for one sequence.\<close>

fun conc_loop ::
  "real list \<Rightarrow> real list \<Rightarrow> nat \<Rightarrow> nat list option \<Rightarrow> nat \<Rightarrow> npfloat
     \<Rightarrow> (real list \<times> real option list) list \<Rightarrow> py_error + npfloat" where
  "conc_loop sig_row yhat_row mc bootstrap_idxs cidx logL [] = Inr logL"
| "conc_loop sig_row yhat_row mc bootstrap_idxs cidx logL ((inten_arr, inten_list) # rest) =
     (case select_intensities mc bootstrap_idxs inten_arr inten_list of
        Inl e \<Rightarrow> Inl e
      | Inr arr \<Rightarrow>
          if length sig_row \<le> cidx \<or> length yhat_row \<le> cidx then Inl IndexError
          else conc_loop sig_row yhat_row mc bootstrap_idxs (Suc cidx)
                 (np_add logL (gauss_term (sig_row ! cidx) (yhat_row ! cidx) arr)) rest)"

text \<open>The loop over \<open>enumerate(seqs)\<close>.\<close>

fun seq_loop ::
  "IntensityArray \<Rightarrow> real list list \<Rightarrow> real list list \<Rightarrow> nat \<Rightarrow> nat list option \<Rightarrow> nat
     \<Rightarrow> npfloat \<Rightarrow> string list \<Rightarrow> py_error + npfloat" where
  "seq_loop ia sigma_clusts yhat mc bootstrap_idxs sidx logL [] = Inr logL"
| "seq_loop ia sigma_clusts yhat mc bootstrap_idxs sidx logL (seq # rest) =
     (case dict_get (intensity_loarr_given_seq ia) seq of
        Inl e \<Rightarrow> Inl e
      | Inr loarr \<Rightarrow>
     (case dict_get (intensity_lol_given_seq ia) seq of
        Inl e \<Rightarrow> Inl e
      | Inr lol \<Rightarrow>
          if zip loarr lol \<noteq> [] \<and> (length sigma_clusts \<le> sidx \<or> length yhat \<le> sidx)
          then Inl IndexError
          else (case conc_loop (sigma_clusts ! sidx) (yhat ! sidx) mc bootstrap_idxs 0 logL
                       (zip loarr lol) of
                  Inl e \<Rightarrow> Inl e
                | Inr logL' \<Rightarrow>
                    seq_loop ia sigma_clusts yhat mc bootstrap_idxs (Suc sidx) logL' rest)))"

text \<open>The last summand, which pulls every Imax towards \<open>Imax_const\<close>.\<close>

definition prior_term :: "real \<Rightarrow> real list \<Rightarrow> real \<Rightarrow> npfloat" where
  "prior_term Imax_c Imax_arr sigI =
     (if sigI \<le> 0 then NonFinite
      else Finite (- real (length Imax_arr) * ln sigI
                   - 1 / (2 * sigI\<^sup>2) * sum_list (map (\<lambda>I. (I - Imax_c)\<^sup>2) Imax_arr)))"

definition model_logL ::
  "KdFitIA \<Rightarrow> string list \<Rightarrow> real list \<Rightarrow> real list \<Rightarrow> real list \<Rightarrow> real list \<Rightarrow> real
     \<Rightarrow> nat option \<Rightarrow> nat list option \<Rightarrow> py_error + npfloat" where
  "model_logL st seq_list Kd_list Imin_list Imax_list sig_cs sigI mc_opt bootstrap_idxs =
     (if bootstrap_idxs \<noteq> None \<and> length seq_list \<noteq> 1
      then Inl (AssertionError
                  (Some ''Bootstrapping can only be performed on one seq at a time.''))
      else
       (let mc = (case mc_opt of None \<Rightarrow> st_max_clust st | Some m \<Rightarrow> m);
            n = length Imax_list in
        if n \<noteq> length (concentrations st) then Inl (AssertionError (Some ''Imax_list''))
        else
         (case sequence_err
                 (map (\<lambda>Kd. sequence_err (map (\<lambda>conc. theta conc Kd) (concentrations st)))
                    Kd_list) of
            Inl e \<Rightarrow> Inl e
          | Inr thetas \<Rightarrow>
         (case tile_plus_times n (Imin_stdev (st_Imin st)) thetas sig_cs of
            Inl e \<Rightarrow> Inl e
          | Inr sigma_clusts \<Rightarrow>
         (case tile_plus_times n Imin_list thetas Imax_list of
            Inl e \<Rightarrow> Inl e
          | Inr yhat \<Rightarrow>
         (case seq_loop (st_IA st) sigma_clusts yhat mc bootstrap_idxs 0 (Finite 0) seq_list of
            Inl e \<Rightarrow> Inl e
          | Inr logL \<Rightarrow>
              Inr (np_add logL
                     (prior_term (Imax_const (st_Imax st)) Imax_list sigI))))))))"

subsection \<open>The joint fit of Imax\<close>

text \<open>
  The optimizers of scipy are parameters: \<open>minimize\<close> gets the objective and the start
  and returns \<open>res.success\<close> and \<open>res.x\<close>, or the exception that came out of it.
\<close>

record ML_setup =
  ml_idx1 :: nat
  ml_idx2 :: nat
  ml_idx3 :: nat
  ml_Imin_list :: "real list"

definition ML_indices :: "KdFitIA \<Rightarrow> string list \<Rightarrow> profile \<Rightarrow> ML_setup" where
  "ML_indices st ML_seqs Imin =
     (let idx1 = length ML_seqs;
          idx2 = idx1 + course_len (st_IA st);
          idx3 = idx2 + course_len (st_IA st) in
      \<lparr> ml_idx1 = idx1, ml_idx2 = idx2, ml_idx3 = idx3,
        ml_Imin_list = list_if_scalar Imin (length (concentrations st)) \<rparr>)"

text \<open>\<open>neg_log_L\<close> of \<open>fit_Imax_ML_given_Imin\<close>; \<open>params\<close> is the array the optimizer passes.\<close>

definition neg_log_L_joint ::
  "KdFitIA \<Rightarrow> string list \<Rightarrow> ML_setup \<Rightarrow> real list \<Rightarrow> py_error + npfloat" where
  "neg_log_L_joint st ML_seqs su params0 =
     (let params = py_map_abs (PyList params0) in
      case py_slice params 0 (ml_idx1 su) of
        Inl e \<Rightarrow> Inl e
      | Inr Kd_list \<Rightarrow>
     (case py_slice params (ml_idx1 su) (ml_idx2 su) of
        Inl e \<Rightarrow> Inl e
      | Inr Imax_list \<Rightarrow>
     (case py_slice params (ml_idx2 su) (ml_idx3 su) of
        Inl e \<Rightarrow> Inl e
      | Inr sig_cs \<Rightarrow>
     (case py_index params (ml_idx3 su) of
        Inl e \<Rightarrow> Inl e
      | Inr sigI \<Rightarrow>
     (case model_logL st ML_seqs Kd_list (ml_Imin_list su) Imax_list sig_cs sigI None None of
        Inl e \<Rightarrow> Inl e
      | Inr l \<Rightarrow> Inr (np_neg l))))))"

text \<open>
  The start \<open>x0\<close>; \<open>cf seq\<close> is \<open>self.curve_fit_Kd(seq, self.Imin_const, self.Imax_const)\<close>.
\<close>

definition initial_guess ::
  "KdFitIA \<Rightarrow> (string \<Rightarrow> py_error + real) \<Rightarrow> string list \<Rightarrow> py_error + real list" where
  "initial_guess st cf ML_seqs =
     (case sequence_err (map cf ML_seqs) of
        Inl e \<Rightarrow> Inl e
      | Inr cf_Kds \<Rightarrow>
          Inr (cf_Kds
               @ Imax_adjusted (st_Imax st)
               @ replicate (course_len (st_IA st)) 1
               @ [(Imax_const (st_Imax st) - Imin_const (st_Imin st)) / 10]))"

definition fit_Imax_ML_given_Imin ::
  "KdFitIA \<Rightarrow> (string \<Rightarrow> py_error + real)
     \<Rightarrow> ((real list \<Rightarrow> py_error + npfloat) \<Rightarrow> real list \<Rightarrow> py_error + (bool \<times> real list))
     \<Rightarrow> string list \<Rightarrow> profile
     \<Rightarrow> py_error + (real list \<times> real list \<times> real list \<times> real)" where
  "fit_Imax_ML_given_Imin st cf minimize ML_seqs Imin =
     (let su = ML_indices st ML_seqs Imin in
      case initial_guess st cf ML_seqs of
        Inl e \<Rightarrow> Inl e
      | Inr x0 \<Rightarrow>
          if length x0 \<noteq> ml_idx3 su + 1 then Inl (AssertionError None)
          else (case minimize (neg_log_L_joint st ML_seqs su) x0 of
             Inl e \<Rightarrow> Inl e
           | Inr res \<Rightarrow>
               (let params = py_map_abs (PyList (snd res)) in
                case py_slice params 0 (ml_idx1 su) of
                  Inl e \<Rightarrow> Inl e
                | Inr Kd_list \<Rightarrow>
               (case py_slice params (ml_idx1 su) (ml_idx2 su) of
                  Inl e \<Rightarrow> Inl e
                | Inr Imax_list \<Rightarrow>
               (case py_slice params (ml_idx2 su) (ml_idx3 su) of
                  Inl e \<Rightarrow> Inl e
                | Inr sig_cs \<Rightarrow>
               (case py_index params (ml_idx3 su) of
                  Inl e \<Rightarrow> Inl e
                | Inr sigI \<Rightarrow> Inr (Kd_list, Imax_list, sig_cs, sigI)))))))"

subsection \<open>The fit of one Kd\<close>

text \<open>The draw of \<open>bootstrap_idxs\<close> in \<open>ML_fit_Kd\<close>.\<close>

definition draw_bootstrap_idxs ::
  "IntensityArray \<Rightarrow> string \<Rightarrow> nat \<Rightarrow> (nat \<Rightarrow> nat) \<Rightarrow> py_error + (nat list \<times> (nat \<Rightarrow> nat))"
where
  "draw_bootstrap_idxs ia seq mc rng =
     (case dict_get (intensity_lol_given_seq ia) seq of
        Inl e \<Rightarrow> Inl e
      | Inr lol \<Rightarrow>
          (case lol of
             [] \<Rightarrow> Inl IndexError
           | l0 # _ \<Rightarrow>
               (let len_inten_list = length l0 in
                np_random_choice len_inten_list (min len_inten_list mc) rng)))"

text \<open>\<open>neg_log_L\<close> of \<open>ML_fit_Kd\<close>.\<close>

definition neg_log_L_single ::
  "KdFitIA \<Rightarrow> string \<Rightarrow> string \<Rightarrow> real list \<Rightarrow> nat list option \<Rightarrow> real
     \<Rightarrow> py_error + npfloat" where
  "neg_log_L_single st seq name Imin_list bootstrap_idxs Kd =
     (case dict_get (st_Imax_ML st) name of
        Inl e \<Rightarrow> Inl e
      | Inr Imax_list \<Rightarrow>
     (case dict_get (st_sigma_consts st) name of
        Inl e \<Rightarrow> Inl e
      | Inr sig_cs \<Rightarrow>
     (case dict_get (st_sigma_I st) name of
        Inl e \<Rightarrow> Inl e
      | Inr sigI \<Rightarrow>
     (case model_logL st [seq] [Kd] Imin_list Imax_list sig_cs sigI None bootstrap_idxs of
        Inl e \<Rightarrow> Inl e
      | Inr l \<Rightarrow> Inr (np_neg l)))))"

definition failure_template :: string where
  "failure_template = LF # ''Warning: Failure on {} ({})''"

text \<open>
  \<open>ML_fit_Kd\<close> from the line \<open>Imin = getattr(self, Imin_name)\<close> on, with the indices drawn.
  \<open>mm_names\<close> stands for \<open>seqtools.mm_names(self.target, seq)\<close>. The value returned is
  \<open>float(res.x)\<close>, whatever float the optimizer ended at.
\<close>

definition ML_fit_given_idxs ::
  "KdFitIA \<Rightarrow> ((real \<Rightarrow> py_error + npfloat) \<Rightarrow> real \<Rightarrow> py_error + (bool \<times> npfloat))
     \<Rightarrow> (string \<Rightarrow> string) \<Rightarrow> string \<Rightarrow> string \<Rightarrow> nat list option \<Rightarrow> world
     \<Rightarrow> (py_error + npfloat) \<times> world" where
  "ML_fit_given_idxs st minimize mm_names seq name bootstrap_idxs w =
     (case getattr_Imin st name of
        Inl e \<Rightarrow> (Inl e, w)
      | Inr Imin \<Rightarrow>
          (let Imin_list = list_if_scalar Imin (length (concentrations st)) in
           case minimize (neg_log_L_single st seq name Imin_list bootstrap_idxs) 20 of
             Inl e \<Rightarrow> (Inl e, w)
           | Inr res \<Rightarrow>
               if \<not> fst res then
                 (case py_print failure_template w of
                    (printed, w') \<Rightarrow>
                      (case py_format printed [seq, mm_names seq] of
                         Inl e \<Rightarrow> (Inl e, w')
                       | Inr _ \<Rightarrow> (Inr (snd res), w')))
               else (Inr (snd res), w)))"

definition ML_fit_Kd ::
  "KdFitIA \<Rightarrow> ((real \<Rightarrow> py_error + npfloat) \<Rightarrow> real \<Rightarrow> py_error + (bool \<times> npfloat))
     \<Rightarrow> (string \<Rightarrow> string) \<Rightarrow> string \<Rightarrow> string \<Rightarrow> nat option \<Rightarrow> bool \<Rightarrow> world
     \<Rightarrow> (py_error + npfloat) \<times> world" where
  "ML_fit_Kd st minimize mm_names seq name mc_opt bootstrap w =
     (let mc = (case mc_opt of None \<Rightarrow> st_max_clust st | Some m \<Rightarrow> m) in
      if bootstrap then
        (case draw_bootstrap_idxs (st_IA st) seq mc (fst w) of
           Inl e \<Rightarrow> (Inl e, w)
         | Inr (idxs, rng') \<Rightarrow>
             ML_fit_given_idxs st minimize mm_names seq name (Some idxs) (rng', snd w))
      else ML_fit_given_idxs st minimize mm_names seq name None w)"

subsection \<open>The scan over the sequences\<close>

text \<open>
  \<open>np.std\<close>: not a number on an empty list or when an entry is not finite, the root of the
  mean squared deviation otherwise.
\<close>

fun finite_values :: "npfloat list \<Rightarrow> real list option" where
  "finite_values [] = Some []"
| "finite_values (Finite x # xs) = map_option ((#) x) (finite_values xs)"
| "finite_values (NonFinite # xs) = None"

definition np_std :: "npfloat list \<Rightarrow> npfloat" where
  "np_std vs =
     (case finite_values vs of
        None \<Rightarrow> NonFinite
      | Some xs \<Rightarrow>
          if xs = [] then NonFinite
          else (let n = real (length xs); m = sum_list xs / n in
                Finite (sqrt (sum_list (map (\<lambda>x. (x - m)\<^sup>2) xs) / n))))"

text \<open>
  A fit function is called with a sequence and the \<open>bootstrap\<close> flag; it is
  \<open>curve_fit_Kd\<close> or \<open>ML_fit_Kd\<close> with the profiles of one pair of names, and returns a
  float, finite or not.
\<close>

type_synonym fit_func = "string \<Rightarrow> bool \<Rightarrow> world \<Rightarrow> (py_error + npfloat) \<times> world"

text \<open>The list comprehension \<open>bs_Kds\<close>.\<close>

fun bootstrap_fits ::
  "fit_func \<Rightarrow> string \<Rightarrow> nat \<Rightarrow> world \<Rightarrow> (py_error + npfloat list) \<times> world" where
  "bootstrap_fits fit seq 0 w = (Inr [], w)"
| "bootstrap_fits fit seq (Suc n) w =
     (case fit seq True w of
        (Inl e, w') \<Rightarrow> (Inl e, w')
      | (Inr Kd, w') \<Rightarrow>
          (case bootstrap_fits fit seq n w' of
             (Inl e, w'') \<Rightarrow> (Inl e, w'')
           | (Inr rest, w'') \<Rightarrow> (Inr (Kd # rest), w'')))"

record fit_result =
  fr_Kd :: npfloat
  fr_Kd_error :: npfloat
  fr_ABA :: npfloat
  fr_ABA_error :: npfloat

text \<open>The body of the loop over \<open>self.IA.seqs\<close> in \<open>fit_all_Kds\<close>, after the progress dot.\<close>

definition fit_seq ::
  "fit_func \<Rightarrow> npfloat \<Rightarrow> nat \<Rightarrow> string \<Rightarrow> world \<Rightarrow> (py_error + fit_result) \<times> world" where
  "fit_seq fit neg_control_Kd num_bootstraps seq w =
     (case fit seq False w of
        (Inl e, w1) \<Rightarrow> (Inl e, w1)
      | (Inr Kd, w1) \<Rightarrow>
          (case bootstrap_fits fit seq num_bootstraps w1 of
             (Inl e, w2) \<Rightarrow> (Inl e, w2)
           | (Inr bs_Kds, w2) \<Rightarrow>
               (Inr \<lparr> fr_Kd = Kd,
                      fr_Kd_error = np_std bs_Kds,
                      fr_ABA = ABA Kd neg_control_Kd,
                      fr_ABA_error = np_std (map (\<lambda>kkd. ABA kkd neg_control_Kd) bs_Kds) \<rparr>,
                w2)))"

text \<open>\<open>sys.stdout.write('.')\<close> on every hundredth sequence, then the body.\<close>

fun fit_seqs ::
  "fit_func \<Rightarrow> npfloat \<Rightarrow> nat \<Rightarrow> nat \<Rightarrow> string list \<Rightarrow> world
     \<Rightarrow> (py_error + fit_result list) \<times> world" where
  "fit_seqs fit neg_control_Kd num_bootstraps i [] w = (Inr [], w)"
| "fit_seqs fit neg_control_Kd num_bootstraps i (seq # rest) w =
     (let w0 = (if i mod 100 = 0 then (fst w, snd w @ [''.'']) else w) in
      case fit_seq fit neg_control_Kd num_bootstraps seq w0 of
        (Inl e, w1) \<Rightarrow> (Inl e, w1)
      | (Inr r, w1) \<Rightarrow>
          (case fit_seqs fit neg_control_Kd num_bootstraps (Suc i) rest w1 of
             (Inl e, w2) \<Rightarrow> (Inl e, w2)
           | (Inr rs, w2) \<Rightarrow> (Inr (r # rs), w2)))"

text \<open>
  The loop over the sorted pairs of names; \<open>fits\<close> holds, for each pair, its names and
  its fit function as \<open>setup_for_fit\<close> left them.
\<close>

fun fit_pairs ::
  "IntensityArray \<Rightarrow> nat \<Rightarrow> ((string \<times> string) \<times> fit_func) list \<Rightarrow> world
     \<Rightarrow> (py_error + ((string \<times> string) \<times> fit_result list) list) \<times> world" where
  "fit_pairs ia num_bootstraps [] w = (Inr [], w)"
| "fit_pairs ia num_bootstraps ((names_tup, fit) # rest) w =
     (case py_print (LF # '' {names_tup}'') w of
        (_, w0) \<Rightarrow>
     (case fit (neg_control_target ia) False w0 of
        (Inl e, w1) \<Rightarrow> (Inl e, w1)
      | (Inr neg_control_Kd, w1) \<Rightarrow>
     (case fit_seqs fit neg_control_Kd num_bootstraps 0 (seqs ia) w1 of
        (Inl e, w2) \<Rightarrow> (Inl e, w2)
      | (Inr rs, w2) \<Rightarrow>
     (case fit_pairs ia num_bootstraps rest w2 of
        (Inl e, w3) \<Rightarrow> (Inl e, w3)
      | (Inr others, w3) \<Rightarrow> (Inr ((names_tup, rs) # others), w3)))))"

text \<open>
  \<open>fit_all_Kds\<close>, after \<open>setup_for_fit\<close> and the four empty result dicts. \<open>nseqs_str\<close> is
  the text of \<open>self.IA.nseqs\<close>.
\<close>

definition fit_all_Kds ::
  "IntensityArray \<Rightarrow> string \<Rightarrow> ((string \<times> string) \<times> fit_func) list \<Rightarrow> nat \<Rightarrow> world
     \<Rightarrow> (py_error + ((string \<times> string) \<times> fit_result list) list) \<times> world" where
  "fit_all_Kds ia nseqs_str fits num_bootstraps w =
     (case py_print (''{} Seqs, '' @ [CHR 0x27] @ ''.'' @ [CHR 0x27] @ ''={}'' @ [LF]) w of
        (printed, w0) \<Rightarrow>
          (case py_format printed [nseqs_str, ''100''] of
             Inl e \<Rightarrow> (Inl e, w0)
           | Inr _ \<Rightarrow> fit_pairs ia num_bootstraps fits w0))"

subsection \<open>Notions used in the statements\<close>








text \<open>
  Modelled from the spec: the robust mode of the intensity array is not part of the
  module. Here the mode of a pool is its most frequent value, the first one on a tie.
\<close>

definition mode_of :: "real list \<Rightarrow> real option" where
  "mode_of xs =
     (case xs of
        [] \<Rightarrow> None
      | x # _ \<Rightarrow>
          Some (fold (\<lambda>y best. if count_list xs best < count_list xs y then y else best) xs x))"

subsection \<open>A small data set\<close>



definition ia_ex :: IntensityArray where
  "ia_ex =
     \<lparr> course_trait_list = [1, 2], course_len = 2,
       target = ''AC'', neg_control_target = ''GT'', seqs = [''AC'', ''GT''],
       modes_given_seq = (\<lambda>_. [1, 2]),
       stdevs_given_seq = (\<lambda>_. [1, 1]),
       medians_given_seq = (\<lambda>_. [2, 3.5]),
       intensity_loarr_given_seq = [''AC'' \<mapsto> [[1], [2, 2]], ''GT'' \<mapsto> [[1], [2, 2]]],
       intensity_lol_given_seq =
         [''AC'' \<mapsto> [[Some 1, None], [Some 2, Some 2]],
          ''GT'' \<mapsto> [[Some 1, None], [Some 2, Some 2]]] \<rparr>"


definition st_of :: "IntensityArray \<Rightarrow> KdFitIA" where
  "st_of ia =
     \<lparr> st_IA = ia, st_max_clust = 2000,
       st_Imin = \<lparr> Imin_neg_cont = [1, 2], Imin_const = 1,
                   Imin_given_conc = [1 \<mapsto> 1, 2 \<mapsto> 2],
                   Imin_stdev = [1, 1], Imin_stdev_given_conc = [1 \<mapsto> 1, 2 \<mapsto> 1] \<rparr>,
       st_Imax = \<lparr> Imax_const = 10, Imax_adjusted = [10, 10],
                   Imax_given_conc = [1 \<mapsto> 10, 2 \<mapsto> 10] \<rparr>,
       st_Imax_ML = [''Imin_const'' \<mapsto> [10, 10]],
       st_sigma_consts = [''Imin_const'' \<mapsto> [1, 1]],
       st_sigma_I = [''Imin_const'' \<mapsto> 1] \<rparr>"

text \<open>An optimizer that gives up at its start.\<close>

definition minimize_fail ::
  "(real \<Rightarrow> py_error + npfloat) \<Rightarrow> real \<Rightarrow> py_error + (bool \<times> npfloat)" where
  "minimize_fail objective x0 = Inr (False, Finite x0)"

definition mm_names_ex :: "string \<Rightarrow> string" where
  "mm_names_ex seq = seq"

definition world_ex :: world where
  "world_ex = ((\<lambda>j. j), [])"






section \<open>The adjusted Imax profile\<close>

lemma Imax_adjusted_loop_policy:
  assumes "\<forall>c \<in> set cs. c \<noteq> 0 \<and> 1 + Kd / c \<noteq> 0"
  shows "\<exists>adj. Imax_adjusted_loop Imin_c Kd Imax_c cs ms ds = Inr adj
           \<and> length adj = min (length cs) (min (length ms) (length ds))
           \<and> (\<forall>i < length adj.
                 adj ! i =
                   (if (Imax_c - Imin_c) / (1 + Kd / (cs ! i)) + Imin_c < 0.90 * Imax_c
                    then Imax_c
                    else ms ! i + (1 + Kd / (cs ! i)) * (ds ! i - ms ! i)))"
  using assms
proof (induction Imin_c Kd Imax_c cs ms ds rule: Imax_adjusted_loop.induct)
  case (1 Imin_c Kd Imax_c conc cs Imin ms med ds)
  have c: "conc \<noteq> 0" "1 + Kd / conc \<noteq> 0" using "1.prems" by auto
  have io: "Iobs Imin_c conc Kd Imax_c = Inr ((Imax_c - Imin_c) / (1 + Kd / conc) + Imin_c)"
    using c by (simp add: Iobs_def)
  have pre: "\<forall>c \<in> set cs. c \<noteq> 0 \<and> 1 + Kd / c \<noteq> 0" using "1.prems" by simp
  from "1.IH"[OF io refl pre]
  obtain rest where r: "Imax_adjusted_loop Imin_c Kd Imax_c cs ms ds = Inr rest"
     and len: "length rest = min (length cs) (min (length ms) (length ds))"
     and ent: "\<forall>i < length rest. rest ! i =
                   (if (Imax_c - Imin_c) / (1 + Kd / (cs ! i)) + Imin_c < 0.90 * Imax_c
                    then Imax_c
                    else ms ! i + (1 + Kd / (cs ! i)) * (ds ! i - ms ! i))"
    by blast
  let ?e = "(if (Imax_c - Imin_c) / (1 + Kd / conc) + Imin_c < 0.90 * Imax_c then Imax_c
             else Imin + (1 + Kd / conc) * (med - Imin))"
  have res: "Imax_adjusted_loop Imin_c Kd Imax_c (conc # cs) (Imin # ms) (med # ds) = Inr (?e # rest)"
    using io r by (simp add: Let_def)
  have all: "\<forall>i < length (?e # rest). (?e # rest) ! i =
                   (if (Imax_c - Imin_c) / (1 + Kd / ((conc # cs) ! i)) + Imin_c < 0.90 * Imax_c
                    then Imax_c
                    else (Imin # ms) ! i + (1 + Kd / ((conc # cs) ! i)) * ((med # ds) ! i - (Imin # ms) ! i))"
  proof (intro allI impI)
    fix i assume "i < length (?e # rest)"
    then show "(?e # rest) ! i =
                   (if (Imax_c - Imin_c) / (1 + Kd / ((conc # cs) ! i)) + Imin_c < 0.90 * Imax_c
                    then Imax_c
                    else (Imin # ms) ! i + (1 + Kd / ((conc # cs) ! i)) * ((med # ds) ! i - (Imin # ms) ! i))"
      using ent by (cases i) simp_all
  qed
  have len': "length (?e # rest) = min (length (conc # cs)) (min (length (Imin # ms)) (length (med # ds)))"
    using len by simp
  show ?case using res all len' by blast
qed simp_all

text \<open>
  C4, as the code has it. With non-zero concentrations, \<open>find_Imax\<close> returns, and for every
  concentration the entry of \<open>Imax_adjusted\<close> is \<open>Imax_const\<close> itself when the predicted
  intensity is below 90% of \<open>Imax_const\<close>, and otherwise
  \<open>Imin + (1 + Kd / conc) * (median - Imin)\<close> with the negative control's mode at that
  concentration as \<open>Imin\<close> and the reference \<open>Kd\<close> of the curve fit.
\<close>
theorem find_Imax_policy:
  assumes "\<forall>c \<in> set (course_trait_list ia). c \<noteq> 0 \<and> 1 + Kd / c \<noteq> 0"
  shows "\<exists>r. find_Imax ia mn (Kd, Imax_c) = Inr r \<and> Imax_const r = Imax_c
           \<and> length (Imax_adjusted r) =
               min (length (course_trait_list ia))
                 (min (length (Imin_neg_cont mn)) (length (medians_given_seq ia (target ia))))
           \<and> (\<forall>i < length (Imax_adjusted r).
                \<exists>fit_Iobs. Iobs (Imin_const mn) (course_trait_list ia ! i) Kd Imax_c = Inr fit_Iobs
                  \<and> Imax_adjusted r ! i =
                      (if fit_Iobs < 0.90 * Imax_c then Imax_c
                       else Imin_neg_cont mn ! i
                            + (1 + Kd / (course_trait_list ia ! i))
                              * (medians_given_seq ia (target ia) ! i - Imin_neg_cont mn ! i)))"
proof -
  let ?cs = "course_trait_list ia" and ?ms = "Imin_neg_cont mn"
  let ?ds = "medians_given_seq ia (target ia)"
  from Imax_adjusted_loop_policy[where cs = ?cs and Kd = Kd and Imin_c = "Imin_const mn"
      and Imax_c = Imax_c and ms = ?ms and ds = ?ds, OF assms]
  obtain adj where a: "Imax_adjusted_loop (Imin_const mn) Kd Imax_c ?cs ?ms ?ds = Inr adj"
     and len: "length adj = min (length ?cs) (min (length ?ms) (length ?ds))"
     and ent: "\<forall>i < length adj. adj ! i =
                   (if (Imax_c - Imin_const mn) / (1 + Kd / (?cs ! i)) + Imin_const mn < 0.90 * Imax_c
                    then Imax_c
                    else ?ms ! i + (1 + Kd / (?cs ! i)) * (?ds ! i - ?ms ! i))"
    by blast
  let ?r = "\<lparr> Imax_const = Imax_c, Imax_adjusted = adj,
              Imax_given_conc = dict_of_zip ?cs adj \<rparr>"
  have fr: "find_Imax ia mn (Kd, Imax_c) = Inr ?r"
    using a by (simp add: find_Imax_def)
  have each: "\<forall>i < length (Imax_adjusted ?r).
                \<exists>fit_Iobs. Iobs (Imin_const mn) (?cs ! i) Kd Imax_c = Inr fit_Iobs
                  \<and> Imax_adjusted ?r ! i =
                      (if fit_Iobs < 0.90 * Imax_c then Imax_c
                       else ?ms ! i + (1 + Kd / (?cs ! i)) * (?ds ! i - ?ms ! i))"
  proof (intro allI impI)
    fix i assume "i < length (Imax_adjusted ?r)"
    then have i: "i < length adj" by simp
    then have "i < length ?cs" using len by simp
    then have "?cs ! i \<in> set ?cs" by simp
    then have nz: "?cs ! i \<noteq> 0" "1 + Kd / (?cs ! i) \<noteq> 0" using assms by auto
    have io: "Iobs (Imin_const mn) (?cs ! i) Kd Imax_c
                = Inr ((Imax_c - Imin_const mn) / (1 + Kd / (?cs ! i)) + Imin_const mn)"
      using nz by (simp add: Iobs_def)
    have "adj ! i = (if (Imax_c - Imin_const mn) / (1 + Kd / (?cs ! i)) + Imin_const mn < 0.90 * Imax_c
                    then Imax_c
                    else ?ms ! i + (1 + Kd / (?cs ! i)) * (?ds ! i - ?ms ! i))"
      using ent i by blast
    then show "\<exists>fit_Iobs. Iobs (Imin_const mn) (?cs ! i) Kd Imax_c = Inr fit_Iobs
                  \<and> Imax_adjusted ?r ! i =
                      (if fit_Iobs < 0.90 * Imax_c then Imax_c
                       else ?ms ! i + (1 + Kd / (?cs ! i)) * (?ds ! i - ?ms ! i))"
      using io by simp
  qed
  have l2: "length (Imax_adjusted ?r) = min (length ?cs) (min (length ?ms) (length ?ds))"
    using len by simp
  have c2: "Imax_const ?r = Imax_c" by simp
  show ?thesis using fr each l2 c2 by blast
qed

theorem find_Imax_policy_witness:
  "course_trait_list ia_ex = [1, 2]
   \<and> (\<exists>r. find_Imax ia_ex (st_Imin (st_of ia_ex)) (1/10, 10) = Inr r \<and> Imax_const r = 10
           \<and> length (Imax_adjusted r) = 2)"
proof -
  have h: "\<forall>c \<in> set (course_trait_list ia_ex). c \<noteq> 0 \<and> 1 + (1/10) / c \<noteq> 0"
    by (simp add: ia_ex_def)
  from find_Imax_policy[OF h, of "st_Imin (st_of ia_ex)" 10]
  obtain r where "find_Imax ia_ex (st_Imin (st_of ia_ex)) (1/10, 10) = Inr r" "Imax_const r = 10"
    "length (Imax_adjusted r) =
               min (length (course_trait_list ia_ex))
                 (min (length (Imin_neg_cont (st_Imin (st_of ia_ex))))
                    (length (medians_given_seq ia_ex (target ia_ex))))"
    by blast
  then have "find_Imax ia_ex (st_Imin (st_of ia_ex)) (1/10, 10) = Inr r \<and> Imax_const r = 10
           \<and> length (Imax_adjusted r) = 2"
    by (simp add: ia_ex_def st_of_def)
  moreover have "course_trait_list ia_ex = [1, 2]" by (simp add: ia_ex_def)
  ultimately show ?thesis by blast
qed

theorem find_Imax_below_90_counterexample:
  "Iobs (Imin_const (st_Imin (st_of ia_ex))) (course_trait_list ia_ex ! 0) 1 10 = Inr (11 / 2)
   \<and> (11 / 2 :: real) < 0.90 * 10
   \<and> map_sum id Imax_adjusted (find_Imax ia_ex (st_Imin (st_of ia_ex)) (1, 10)) = Inr [10, 10]"
  by (simp add: Iobs_def find_Imax_def ia_ex_def st_of_def Let_def)

section \<open>The constant Imin\<close>

text \<open>
  C5, as the code has it. \<open>find_Imin_and_background_noise\<close> sets \<open>Imin_neg_cont\<close> to the
  negative control's modes, one per concentration, and \<open>Imin_const\<close> to the first of them:
  the mode at the first concentration, not a mode of the pooled intensities.
\<close>
theorem Imin_const_is_first_mode:
  assumes "modes_given_seq ia (neg_control_target ia) = m # ms"
  shows "\<exists>r. find_Imin_and_background_noise ia = Inr r \<and> Imin_neg_cont r = m # ms
           \<and> Imin_const r = m \<and> Imin_stdev r = stdevs_given_seq ia (neg_control_target ia)"
  using assms by (simp add: find_Imin_and_background_noise_def Let_def)

theorem Imin_const_is_first_mode_witness:
  "modes_given_seq ia_ex (neg_control_target ia_ex) = 1 # [2]
   \<and> (\<exists>r. find_Imin_and_background_noise ia_ex = Inr r \<and> Imin_neg_cont r = 1 # [2]
           \<and> Imin_const r = 1)"
proof -
  have h: "modes_given_seq ia_ex (neg_control_target ia_ex) = 1 # [2]"
    by (simp add: ia_ex_def)
  from Imin_const_is_first_mode[OF h] h show ?thesis by blast
qed

theorem Imin_const_pooled_mode_counterexample:
  "map_sum id Imin_const (find_Imin_and_background_noise ia_ex) = Inr 1
   \<and> intensity_loarr_given_seq ia_ex (neg_control_target ia_ex) = Some [[1], [2, 2]]
   \<and> map mode_of [[1], [2, 2]] = [Some 1, Some 2]
   \<and> modes_given_seq ia_ex (neg_control_target ia_ex) = [1, 2]
   \<and> mode_of (concat [[1], [2, 2]]) = Some 2"
  by (simp add: find_Imin_and_background_noise_def ia_ex_def mode_of_def Let_def)

section \<open>A fit that does not converge\<close>

text \<open>
  C6. When the optimizer of \<open>ML_fit_Kd\<close> reports no success, the call prints the warning
  template with its placeholders unfilled (no sequence identifier) and raises
  \<open>AttributeError\<close>, because \<open>format\<close> is applied to the value of \<open>print\<close>; no Kd is
  returned.
\<close>
theorem ML_fit_Kd_nonconvergence_raises:
  assumes "getattr_Imin st name = Inr Imin"
      and "minimize (neg_log_L_single st seq name
                       (list_if_scalar Imin (length (concentrations st))) None) 20
             = Inr (False, x)"
  shows "ML_fit_Kd st minimize mm seq name mc_opt False w
           = (Inl AttributeError, (fst w, snd w @ [failure_template @ [LF]]))"
  using assms by (simp add: ML_fit_Kd_def ML_fit_given_idxs_def Let_def py_print_def)

theorem ML_fit_Kd_nonconvergence_raises_witness:
  "getattr_Imin (st_of ia_ex) ''Imin_const'' = Inr (Scalar 1)
   \<and> minimize_fail (neg_log_L_single (st_of ia_ex) ''AC'' ''Imin_const''
                       (list_if_scalar (Scalar 1) (length (concentrations (st_of ia_ex)))) None) 20
             = Inr (False, Finite 20)
   \<and> ML_fit_Kd (st_of ia_ex) minimize_fail mm_names_ex ''AC'' ''Imin_const'' None False world_ex
           = (Inl AttributeError, (fst world_ex, snd world_ex @ [failure_template @ [LF]]))"
proof -
  have h1: "getattr_Imin (st_of ia_ex) ''Imin_const'' = Inr (Scalar 1)"
    by (simp add: getattr_Imin_def st_of_def)
  have h2: "minimize_fail (neg_log_L_single (st_of ia_ex) ''AC'' ''Imin_const''
                       (list_if_scalar (Scalar 1) (length (concentrations (st_of ia_ex)))) None) 20
             = Inr (False, Finite 20)"
    by (simp add: minimize_fail_def)
  from ML_fit_Kd_nonconvergence_raises[where st = "st_of ia_ex" and name = "''Imin_const''"
      and Imin = "Scalar 1" and minimize = minimize_fail and seq = "''AC''" and x = "Finite 20"
      and mm = mm_names_ex and mc_opt = None and w = world_ex, OF h1 h2] h1 h2
  show ?thesis by blast
qed

section \<open>The joint fit of Imax\<close>

lemma initial_guess_layout:
  assumes "sequence_err (map cf ML_seqs) = Inr ks"
  shows "initial_guess st cf ML_seqs
           = Inr (ks @ Imax_adjusted (st_Imax st) @ replicate (course_len (st_IA st)) 1
                  @ [(Imax_const (st_Imax st) - Imin_const (st_Imin st)) / 10])"
  using assms by (simp add: initial_guess_def)

lemma sequence_err_length: "sequence_err rs = Inr xs \<Longrightarrow> length xs = length rs"
  by (induction rs arbitrary: xs) (auto split: sum.splits)

text \<open>
  C9. The objective of \<open>fit_Imax_ML_given_Imin\<close> raises \<open>TypeError\<close> at every parameter
  vector, since it slices the iterator that \<open>map(abs, params)\<close> returns, and
  \<open>fit_Imax_ML_given_Imin\<close> itself never returns a result.
\<close>
theorem joint_objective_raises_TypeError:
  "neg_log_L_joint st ML_seqs su params = Inl TypeError
   \<and> isl (fit_Imax_ML_given_Imin st cf minimize ML_seqs Imin)"
  by (simp add: neg_log_L_joint_def fit_Imax_ML_given_Imin_def Let_def split: sum.splits)

section \<open>The scan never starts\<close>

text \<open>
  C7. \<open>fit_all_Kds\<close> raises \<open>AttributeError\<close> on every input, degenerate pool or not: its
  first \<open>print\<close> is followed by \<open>.format\<close> on the value of \<open>print\<close>, so the heading is printed
  with its placeholders unfilled and no fit, bootstrap or error value is ever computed.
\<close>

theorem fit_all_Kds_raises_AttributeError:
  "fit_all_Kds ia nseqs_str fits num_bootstraps w
     = (Inl AttributeError,
        (fst w,
         snd w @ [(''{} Seqs, '' @ [CHR 0x27] @ ''.'' @ [CHR 0x27] @ ''={}'' @ [LF]) @ [LF]]))"
  by (simp add: fit_all_Kds_def py_print_def)

section \<open>Bootstrap indices\<close>

lemma bootstrap_sample_in_range:
  "\<forall>i \<in> set idxs. i < length lst \<Longrightarrow>
     bootstrap_sample lst idxs = Inr (List.map_filter (\<lambda>i. lst ! i) idxs)"
  by (induction idxs) (simp_all add: map_filter_simps split: option.splits)

lemma row_combine_aligned:
  "length a = length row \<Longrightarrow> length b = length row \<Longrightarrow>
     row_combine a row b = Inr (map2 (+) a (map2 (*) row b))"
  by (simp add: row_combine_def np_broadcast2_def)

lemma tile_single_row:
  assumes "length a = n" "length b = n" "length row = n"
  shows "tile_plus_times n a [row] b = Inr [map2 (+) a (map2 (*) row b)]"
  using assms by (simp add: tile_plus_times_def row_combine_aligned)

lemma nth_combined:
  assumes "c < length row" "length a = length row" "length b = length row"
  shows "map2 (+) a (map2 (*) row b) ! c = a ! c + row ! c * b ! c"
  using assms by simp

lemma upt_first: "[0..<Suc n] = 0 # map Suc [0..<n]"
  by (simp only: map_Suc_upt upt_conv_Cons[OF zero_less_Suc])

lemma conc_loop_resampled:
  assumes "\<forall>p \<in> set ps. \<forall>i \<in> set idxs. i < length (snd p)"
      and "cidx + length ps \<le> length sig_row" "cidx + length ps \<le> length yhat_row"
  shows "conc_loop sig_row yhat_row mc (Some idxs) cidx acc ps
           = Inr (foldl np_add acc
                    (map (\<lambda>k. gauss_term (sig_row ! (cidx + k)) (yhat_row ! (cidx + k))
                                (List.map_filter (\<lambda>i. snd (ps ! k) ! i) idxs))
                       [0..<length ps]))"
  using assms
proof (induction ps arbitrary: cidx acc)
  case Nil
  show ?case by simp
next
  case (Cons p ps)
  obtain arr lst where p: "p = (arr, lst)" by (cases p)
  let ?F = "\<lambda>q k. gauss_term (sig_row ! (cidx + k)) (yhat_row ! (cidx + k))
                     (List.map_filter (\<lambda>i. snd (q ! k) ! i) idxs)"
  have r: "\<forall>i \<in> set idxs. i < length lst" using Cons.prems(1) p by simp
  have sel: "select_intensities mc (Some idxs) arr lst = Inr (List.map_filter (\<lambda>i. lst ! i) idxs)"
    using r by (simp add: select_intensities_def bootstrap_sample_in_range)
  have b: "\<not> (length sig_row \<le> cidx \<or> length yhat_row \<le> cidx)"
    using Cons.prems(2,3) by simp
  have pre: "\<forall>p \<in> set ps. \<forall>i \<in> set idxs. i < length (snd p)"
    "Suc cidx + length ps \<le> length sig_row" "Suc cidx + length ps \<le> length yhat_row"
    using Cons.prems by simp_all
  have ih: "conc_loop sig_row yhat_row mc (Some idxs) (Suc cidx)
              (np_add acc (gauss_term (sig_row ! cidx) (yhat_row ! cidx)
                             (List.map_filter (\<lambda>i. lst ! i) idxs))) ps
            = Inr (foldl np_add
                     (np_add acc (gauss_term (sig_row ! cidx) (yhat_row ! cidx)
                                    (List.map_filter (\<lambda>i. lst ! i) idxs)))
                     (map (\<lambda>k. gauss_term (sig_row ! (Suc cidx + k)) (yhat_row ! (Suc cidx + k))
                                  (List.map_filter (\<lambda>i. snd (ps ! k) ! i) idxs))
                        [0..<length ps]))"
    using pre by (rule Cons.IH)
  have step: "conc_loop sig_row yhat_row mc (Some idxs) cidx acc (p # ps)
              = conc_loop sig_row yhat_row mc (Some idxs) (Suc cidx)
                  (np_add acc (gauss_term (sig_row ! cidx) (yhat_row ! cidx)
                                 (List.map_filter (\<lambda>i. lst ! i) idxs))) ps"
    using sel b by (simp add: p)
  have split: "map (?F (p # ps)) [0..<length (p # ps)]
                 = gauss_term (sig_row ! cidx) (yhat_row ! cidx)
                     (List.map_filter (\<lambda>i. lst ! i) idxs)
                   # map (\<lambda>k. gauss_term (sig_row ! (Suc cidx + k)) (yhat_row ! (Suc cidx + k))
                                (List.map_filter (\<lambda>i. snd (ps ! k) ! i) idxs))
                       [0..<length ps]"
    by (simp add: upt_first p comp_def del: upt_Suc)
  show ?case unfolding step ih split by simp
qed

lemma model_logL_resampled:
  assumes lol: "intensity_lol_given_seq (st_IA st) seq = Some lol"
      and arr: "intensity_loarr_given_seq (st_IA st) seq = Some loarr"
      and rng: "\<forall>l \<in> set lol. \<forall>i \<in> set idxs. i < length l"
      and n: "length loarr = length (concentrations st)"
             "length lol = length (concentrations st)"
      and lens: "length Imin_list = length (concentrations st)"
                "length Imax_list = length (concentrations st)"
                "length sig_cs = length (concentrations st)"
                "length (Imin_stdev (st_Imin st)) = length (concentrations st)"
      and th: "sequence_err (map (\<lambda>conc. theta conc Kd) (concentrations st)) = Inr ths"
  shows "model_logL st [seq] [Kd] Imin_list Imax_list sig_cs sigI mc_opt (Some idxs)
           = Inr (np_add
                   (foldl np_add (Finite 0)
                      (map (\<lambda>c. gauss_term (Imin_stdev (st_Imin st) ! c + ths ! c * sig_cs ! c)
                                  (Imin_list ! c + ths ! c * Imax_list ! c)
                                  (List.map_filter (\<lambda>i. lol ! c ! i) idxs))
                         [0..<length (concentrations st)]))
                   (prior_term (Imax_const (st_Imax st)) Imax_list sigI))"
proof -
  let ?N = "length (concentrations st)"
  let ?sd = "Imin_stdev (st_Imin st)"
  let ?sig = "map2 (+) ?sd (map2 (*) ths sig_cs)"
  let ?yh = "map2 (+) Imin_list (map2 (*) ths Imax_list)"
  let ?mc = "case mc_opt of None \<Rightarrow> st_max_clust st | Some m \<Rightarrow> m"
  have lt: "length ths = ?N" using sequence_err_length[OF th] by simp
  have thetas: "sequence_err
                  (map (\<lambda>Kd. sequence_err (map (\<lambda>conc. theta conc Kd) (concentrations st))) [Kd])
                = Inr [ths]"
    using th by simp
  have sg: "tile_plus_times ?N ?sd [ths] sig_cs = Inr [?sig]"
    using lens(4) lens(3) lt by (rule tile_single_row)
  have yh: "tile_plus_times ?N Imin_list [ths] Imax_list = Inr [?yh]"
    using lens(1) lens(2) lt by (rule tile_single_row)
  have lz: "length (zip loarr lol) = ?N" using n by simp
  have inr: "\<forall>p \<in> set (zip loarr lol). \<forall>i \<in> set idxs. i < length (snd p)"
  proof
    fix p assume "p \<in> set (zip loarr lol)"
    then have "snd p \<in> set lol" by (metis prod.collapse set_zip_rightD)
    then show "\<forall>i \<in> set idxs. i < length (snd p)" using rng by blast
  qed
  have ls: "0 + length (zip loarr lol) \<le> length ?sig" "0 + length (zip loarr lol) \<le> length ?yh"
    using lz lt lens by simp_all
  have cl: "conc_loop ?sig ?yh ?mc (Some idxs) 0 (Finite 0) (zip loarr lol)
              = Inr (foldl np_add (Finite 0)
                       (map (\<lambda>k. gauss_term (?sig ! (0 + k)) (?yh ! (0 + k))
                                   (List.map_filter (\<lambda>i. snd (zip loarr lol ! k) ! i) idxs))
                          [0..<length (zip loarr lol)]))"
    using inr ls by (rule conc_loop_resampled)
  have terms: "map (\<lambda>k. gauss_term (?sig ! (0 + k)) (?yh ! (0 + k))
                           (List.map_filter (\<lambda>i. snd (zip loarr lol ! k) ! i) idxs))
                 [0..<length (zip loarr lol)]
               = map (\<lambda>c. gauss_term (?sd ! c + ths ! c * sig_cs ! c)
                            (Imin_list ! c + ths ! c * Imax_list ! c)
                            (List.map_filter (\<lambda>i. lol ! c ! i) idxs))
                   [0..<?N]"
    unfolding lz
  proof (rule map_cong[OF refl])
    fix k assume "k \<in> set [0..<?N]"
    then have k: "k < ?N" by simp
    have a: "?sig ! k = ?sd ! k + ths ! k * sig_cs ! k"
      using k lt lens by (intro nth_combined) simp_all
    have b: "?yh ! k = Imin_list ! k + ths ! k * Imax_list ! k"
      using k lt lens by (intro nth_combined) simp_all
    have c: "snd (zip loarr lol ! k) = lol ! k" using k n by simp
    show "gauss_term (?sig ! (0 + k)) (?yh ! (0 + k))
            (List.map_filter (\<lambda>i. snd (zip loarr lol ! k) ! i) idxs)
          = gauss_term (?sd ! k + ths ! k * sig_cs ! k)
              (Imin_list ! k + ths ! k * Imax_list ! k)
              (List.map_filter (\<lambda>i. lol ! k ! i) idxs)"
      unfolding c using a b by simp
  qed
  have sl: "seq_loop (st_IA st) [?sig] [?yh] ?mc (Some idxs) 0 (Finite 0) [seq]
              = Inr (foldl np_add (Finite 0)
                       (map (\<lambda>c. gauss_term (?sd ! c + ths ! c * sig_cs ! c)
                                    (Imin_list ! c + ths ! c * Imax_list ! c)
                                    (List.map_filter (\<lambda>i. lol ! c ! i) idxs))
                          [0..<?N]))"
    using lol arr cl terms by (simp add: dict_get_def)
  show ?thesis
    unfolding model_logL_def using lens(2) thetas sg yh sl by (simp add: Let_def)
qed

text \<open>
  C10. \<open>ML_fit_Kd\<close> with \<open>bootstrap=True\<close>, on a sequence with one cluster list per
  concentration, all of the length of the first, and profiles of one value per
  concentration. One index vector is drawn, with replacement, of size
  \<open>min (pool size) max_clust\<close> (\<open>max_clust\<close> is the argument, or \<open>self.max_clust\<close> when it is
  \<open>None\<close>) and over the indices of the first concentration's list; the optimizer gets the
  objective with that one vector; and wherever \<open>theta\<close> is defined, \<open>model_logL\<close> under that
  vector is the sum, over the concentrations, of the Gaussian term of the readings that the
  same vector selects from that concentration's list, those that are \<open>None\<close> dropped, plus
  the term of the Imax prior.
\<close>

theorem bootstrap_indices_drawn_once:
  assumes lol: "intensity_lol_given_seq (st_IA st) seq = Some (l0 # ls)"
      and arr: "intensity_loarr_given_seq (st_IA st) seq = Some loarr"
      and aligned: "\<forall>l \<in> set ls. length l = length l0"
      and n: "length loarr = length (concentrations st)"
             "length (l0 # ls) = length (concentrations st)"
      and prof: "getattr_Imin st name = Inr Imin" "st_Imax_ML st name = Some Imax_list"
                "st_sigma_consts st name = Some sig_cs" "st_sigma_I st name = Some sigI"
      and lens: "length (list_if_scalar Imin (length (concentrations st)))
                   = length (concentrations st)"
                "length Imax_list = length (concentrations st)"
                "length sig_cs = length (concentrations st)"
                "length (Imin_stdev (st_Imin st)) = length (concentrations st)"
  shows "\<exists>mc idxs rng' Imin_list.
           mc = (case mc_opt of None \<Rightarrow> st_max_clust st | Some m \<Rightarrow> m)
         \<and> idxs = map (\<lambda>j. fst w j mod length l0) [0..<min (length l0) mc]
         \<and> rng' = (\<lambda>j. fst w (j + min (length l0) mc))
         \<and> Imin_list = list_if_scalar Imin (length (concentrations st))
         \<and> draw_bootstrap_idxs (st_IA st) seq mc (fst w) = Inr (idxs, rng')
         \<and> (\<forall>i \<in> set idxs. i < length l0)
         \<and> ML_fit_Kd st minimize mm seq name mc_opt True w
             = (case minimize (neg_log_L_single st seq name Imin_list (Some idxs)) 20 of
                  Inl e \<Rightarrow> (Inl e, (rng', snd w))
                | Inr res \<Rightarrow>
                    if fst res then (Inr (snd res), (rng', snd w))
                    else (Inl AttributeError, (rng', snd w @ [failure_template @ [LF]])))
         \<and> (\<forall>Kd ths.
              sequence_err (map (\<lambda>conc. theta conc Kd) (concentrations st)) = Inr ths \<longrightarrow>
                model_logL st [seq] [Kd] Imin_list Imax_list sig_cs sigI None (Some idxs)
                  = Inr (np_add
                          (foldl np_add (Finite 0)
                             (map (\<lambda>c. gauss_term
                                          (Imin_stdev (st_Imin st) ! c + ths ! c * sig_cs ! c)
                                          (Imin_list ! c + ths ! c * Imax_list ! c)
                                          (List.map_filter (\<lambda>i. (l0 # ls) ! c ! i) idxs))
                                [0..<length (concentrations st)]))
                          (prior_term (Imax_const (st_Imax st)) Imax_list sigI))
              \<and> neg_log_L_single st seq name Imin_list (Some idxs) Kd
                  = Inr (np_neg (np_add
                          (foldl np_add (Finite 0)
                             (map (\<lambda>c. gauss_term
                                          (Imin_stdev (st_Imin st) ! c + ths ! c * sig_cs ! c)
                                          (Imin_list ! c + ths ! c * Imax_list ! c)
                                          (List.map_filter (\<lambda>i. (l0 # ls) ! c ! i) idxs))
                                [0..<length (concentrations st)]))
                          (prior_term (Imax_const (st_Imax st)) Imax_list sigI))))"
proof -
  define mc where "mc = (case mc_opt of None \<Rightarrow> st_max_clust st | Some m \<Rightarrow> m)"
  define k where "k = min (length l0) mc"
  define idxs where "idxs = map (\<lambda>j. fst w j mod length l0) [0..<k]"
  define rng' where "rng' = (\<lambda>j. fst w (j + k))"
  define Imin_list where "Imin_list = list_if_scalar Imin (length (concentrations st))"
  have draw: "draw_bootstrap_idxs (st_IA st) seq mc (fst w) = Inr (idxs, rng')"
    using lol by (auto simp: draw_bootstrap_idxs_def dict_get_def np_random_choice_def Let_def
        k_def idxs_def rng'_def)
  have rng: "\<forall>i \<in> set idxs. i < length l0"
  proof
    fix i assume "i \<in> set idxs"
    then obtain j where j: "j < k" "i = fst w j mod length l0" by (auto simp: idxs_def)
    from j(1) have "j < length l0" by (simp add: k_def)
    then have "0 < length l0" by linarith
    then show "i < length l0" using j by simp
  qed
  have all_len: "\<forall>l \<in> set (l0 # ls). \<forall>i \<in> set idxs. i < length l"
    using rng aligned by auto
  have fit: "ML_fit_Kd st minimize mm seq name mc_opt True w
             = (case minimize (neg_log_L_single st seq name Imin_list (Some idxs)) 20 of
                  Inl e \<Rightarrow> (Inl e, (rng', snd w))
                | Inr res \<Rightarrow>
                    if fst res then (Inr (snd res), (rng', snd w))
                    else (Inl AttributeError, (rng', snd w @ [failure_template @ [LF]])))"
    using draw prof(1)
    by (simp add: ML_fit_Kd_def ML_fit_given_idxs_def mc_def[symmetric] Imin_list_def Let_def
          py_print_def split: sum.splits)
  have obj: "\<forall>Kd ths.
              sequence_err (map (\<lambda>conc. theta conc Kd) (concentrations st)) = Inr ths \<longrightarrow>
                model_logL st [seq] [Kd] Imin_list Imax_list sig_cs sigI None (Some idxs)
                  = Inr (np_add
                          (foldl np_add (Finite 0)
                             (map (\<lambda>c. gauss_term
                                          (Imin_stdev (st_Imin st) ! c + ths ! c * sig_cs ! c)
                                          (Imin_list ! c + ths ! c * Imax_list ! c)
                                          (List.map_filter (\<lambda>i. (l0 # ls) ! c ! i) idxs))
                                [0..<length (concentrations st)]))
                          (prior_term (Imax_const (st_Imax st)) Imax_list sigI))
              \<and> neg_log_L_single st seq name Imin_list (Some idxs) Kd
                  = Inr (np_neg (np_add
                          (foldl np_add (Finite 0)
                             (map (\<lambda>c. gauss_term
                                          (Imin_stdev (st_Imin st) ! c + ths ! c * sig_cs ! c)
                                          (Imin_list ! c + ths ! c * Imax_list ! c)
                                          (List.map_filter (\<lambda>i. (l0 # ls) ! c ! i) idxs))
                                [0..<length (concentrations st)]))
                          (prior_term (Imax_const (st_Imax st)) Imax_list sigI)))"
  proof (intro allI impI)
    fix Kd ths
    assume th: "sequence_err (map (\<lambda>conc. theta conc Kd) (concentrations st)) = Inr ths"
    have li: "length Imin_list = length (concentrations st)"
      using lens(1) by (simp add: Imin_list_def)
    note m = model_logL_resampled[OF lol arr all_len n li lens(2) lens(3) lens(4) th,
        where sigI = sigI and mc_opt = None]
    have s: "neg_log_L_single st seq name Imin_list (Some idxs) Kd
               = Inr (np_neg (np_add
                          (foldl np_add (Finite 0)
                             (map (\<lambda>c. gauss_term
                                          (Imin_stdev (st_Imin st) ! c + ths ! c * sig_cs ! c)
                                          (Imin_list ! c + ths ! c * Imax_list ! c)
                                          (List.map_filter (\<lambda>i. (l0 # ls) ! c ! i) idxs))
                                [0..<length (concentrations st)]))
                          (prior_term (Imax_const (st_Imax st)) Imax_list sigI)))"
      unfolding neg_log_L_single_def using prof(2,3,4) m by (simp add: dict_get_def)
    show "model_logL st [seq] [Kd] Imin_list Imax_list sig_cs sigI None (Some idxs)
                  = Inr (np_add
                          (foldl np_add (Finite 0)
                             (map (\<lambda>c. gauss_term
                                          (Imin_stdev (st_Imin st) ! c + ths ! c * sig_cs ! c)
                                          (Imin_list ! c + ths ! c * Imax_list ! c)
                                          (List.map_filter (\<lambda>i. (l0 # ls) ! c ! i) idxs))
                                [0..<length (concentrations st)]))
                          (prior_term (Imax_const (st_Imax st)) Imax_list sigI))
              \<and> neg_log_L_single st seq name Imin_list (Some idxs) Kd
                  = Inr (np_neg (np_add
                          (foldl np_add (Finite 0)
                             (map (\<lambda>c. gauss_term
                                          (Imin_stdev (st_Imin st) ! c + ths ! c * sig_cs ! c)
                                          (Imin_list ! c + ths ! c * Imax_list ! c)
                                          (List.map_filter (\<lambda>i. (l0 # ls) ! c ! i) idxs))
                                [0..<length (concentrations st)]))
                          (prior_term (Imax_const (st_Imax st)) Imax_list sigI)))"
      using m s by (rule conjI)
  qed
  have i2: "idxs = map (\<lambda>j. fst w j mod length l0) [0..<min (length l0) mc]"
    by (simp add: idxs_def k_def)
  have r2: "rng' = (\<lambda>j. fst w (j + min (length l0) mc))" by (simp add: rng'_def k_def)
  show ?thesis
    using mc_def i2 r2 Imin_list_def draw rng fit obj by blast
qed

lemma ex_bootstrap_hyps:
  "intensity_lol_given_seq (st_IA (st_of ia_ex)) ''AC'' = Some ([Some 1, None] # [[Some 2, Some 2]])"
  "intensity_loarr_given_seq (st_IA (st_of ia_ex)) ''AC'' = Some [[1], [2, 2]]"
  "\<forall>l \<in> set [[Some 2, Some (2::real)]]. length l = length [Some (1::real), None]"
  "length [[1], [2, 2::real]] = length (concentrations (st_of ia_ex))"
  "length ([Some 1, None] # [[Some 2, Some (2::real)]]) = length (concentrations (st_of ia_ex))"
  "getattr_Imin (st_of ia_ex) ''Imin_const'' = Inr (Scalar 1)"
  "st_Imax_ML (st_of ia_ex) ''Imin_const'' = Some [10, 10]"
  "st_sigma_consts (st_of ia_ex) ''Imin_const'' = Some [1, 1]"
  "st_sigma_I (st_of ia_ex) ''Imin_const'' = Some 1"
  "length (list_if_scalar (Scalar 1) (length (concentrations (st_of ia_ex))))
     = length (concentrations (st_of ia_ex))"
  "length [10, 10::real] = length (concentrations (st_of ia_ex))"
  "length [1, 1::real] = length (concentrations (st_of ia_ex))"
  "length (Imin_stdev (st_Imin (st_of ia_ex))) = length (concentrations (st_of ia_ex))"
  by (simp_all add: st_of_def ia_ex_def concentrations_def getattr_Imin_def)

lemma ex_thetas:
  "sequence_err (map (\<lambda>conc. theta conc 1) (concentrations (st_of ia_ex))) = Inr [1 / 2, 2 / 3]"
  by (simp add: st_of_def ia_ex_def concentrations_def theta_def)

theorem bootstrap_indices_drawn_once_witness:
  "intensity_lol_given_seq (st_IA (st_of ia_ex)) ''AC'' = Some [[Some 1, None], [Some 2, Some 2]]
   \<and> intensity_loarr_given_seq (st_IA (st_of ia_ex)) ''AC'' = Some [[1], [2, 2]]
   \<and> concentrations (st_of ia_ex) = [1, 2]
   \<and> map_sum id fst (draw_bootstrap_idxs (st_IA (st_of ia_ex)) ''AC'' 2000 (fst world_ex))
       = Inr [0, 1]
   \<and> fst (ML_fit_Kd (st_of ia_ex) minimize_fail mm_names_ex ''AC'' ''Imin_const'' None True
            world_ex) = Inl AttributeError
   \<and> model_logL (st_of ia_ex) [''AC''] [1] [1, 1] [10, 10] [1, 1] 1 None (Some [0, 1])
       = Inr (np_add
               (foldl np_add (Finite 0)
                  [gauss_term (3 / 2) 6 [1], gauss_term (5 / 3) (23 / 3) [2, 2]])
               (prior_term 10 [10, 10] 1))"
proof -
  from bootstrap_indices_drawn_once[OF ex_bootstrap_hyps, where mc_opt = None and w = world_ex
      and minimize = minimize_fail and mm = mm_names_ex]
  obtain mc idxs rng' Imin_list where
        mc: "mc = st_max_clust (st_of ia_ex)"
    and ix: "idxs = map (\<lambda>j. fst world_ex j mod length [Some (1::real), None])
                      [0..<min (length [Some (1::real), None]) mc]"
    and im: "Imin_list = list_if_scalar (Scalar 1) (length (concentrations (st_of ia_ex)))"
    and dr: "draw_bootstrap_idxs (st_IA (st_of ia_ex)) ''AC'' mc (fst world_ex) = Inr (idxs, rng')"
    and ft: "ML_fit_Kd (st_of ia_ex) minimize_fail mm_names_ex ''AC'' ''Imin_const'' None True
               world_ex
             = (case minimize_fail
                      (neg_log_L_single (st_of ia_ex) ''AC'' ''Imin_const'' Imin_list (Some idxs))
                      20 of
                  Inl e \<Rightarrow> (Inl e, (rng', snd world_ex))
                | Inr res \<Rightarrow>
                    if fst res then (Inr (snd res), (rng', snd world_ex))
                    else (Inl AttributeError,
                          (rng', snd world_ex @ [failure_template @ [LF]])))"
    and ob: "\<forall>Kd ths.
              sequence_err (map (\<lambda>conc. theta conc Kd) (concentrations (st_of ia_ex))) = Inr ths \<longrightarrow>
                model_logL (st_of ia_ex) [''AC''] [Kd] Imin_list [10, 10] [1, 1] 1 None (Some idxs)
                  = Inr (np_add
                          (foldl np_add (Finite 0)
                             (map (\<lambda>c. gauss_term
                                          (Imin_stdev (st_Imin (st_of ia_ex)) ! c
                                             + ths ! c * [1, 1] ! c)
                                          (Imin_list ! c + ths ! c * [10, 10] ! c)
                                          (List.map_filter
                                             (\<lambda>i. ([Some 1, None] # [[Some 2, Some 2]]) ! c ! i)
                                             idxs))
                                [0..<length (concentrations (st_of ia_ex))]))
                          (prior_term (Imax_const (st_Imax (st_of ia_ex))) [10, 10] 1))"
    by (simp only: option.case) blast
  have mc2: "mc = 2000" using mc by (simp add: st_of_def)
  have i0: "idxs = [0, 1]" using ix mc2 by (simp add: world_ex_def numeral_2_eq_2)
  have il: "Imin_list = [1, 1]"
    using im by (simp add: st_of_def ia_ex_def concentrations_def numeral_2_eq_2)
  have cs: "concentrations (st_of ia_ex) = [1, 2]"
    by (simp add: st_of_def ia_ex_def concentrations_def)
  have a: "map_sum id fst (draw_bootstrap_idxs (st_IA (st_of ia_ex)) ''AC'' 2000 (fst world_ex))
             = Inr [0, 1]"
    using dr mc2 i0 by simp
  have b: "fst (ML_fit_Kd (st_of ia_ex) minimize_fail mm_names_ex ''AC'' ''Imin_const'' None True
                  world_ex) = Inl AttributeError"
    unfolding ft by (simp add: minimize_fail_def)
  have "model_logL (st_of ia_ex) [''AC''] [1] Imin_list [10, 10] [1, 1] 1 None (Some idxs)
          = Inr (np_add
                  (foldl np_add (Finite 0)
                     (map (\<lambda>c. gauss_term
                                  (Imin_stdev (st_Imin (st_of ia_ex)) ! c
                                     + [1 / 2, 2 / 3] ! c * [1, 1] ! c)
                                  (Imin_list ! c + [1 / 2, 2 / 3] ! c * [10, 10] ! c)
                                  (List.map_filter
                                     (\<lambda>i. ([Some 1, None] # [[Some 2, Some 2]]) ! c ! i)
                                     idxs))
                        [0..<length (concentrations (st_of ia_ex))]))
                  (prior_term (Imax_const (st_Imax (st_of ia_ex))) [10, 10] 1))"
    using ob ex_thetas by blast
  then have c: "model_logL (st_of ia_ex) [''AC''] [1] [1, 1] [10, 10] [1, 1] 1 None (Some [0, 1])
       = Inr (np_add
               (foldl np_add (Finite 0)
                  [gauss_term (3 / 2) 6 [1], gauss_term (5 / 3) (23 / 3) [2, 2]])
               (prior_term 10 [10, 10] 1))"
    unfolding il i0 cs by (simp add: st_of_def numeral_2_eq_2 map_filter_simps)
  show ?thesis using ex_bootstrap_hyps(1,2) cs a b c by simp
qed

section \<open>Lines and words of a result file\<close>













subsection \<open>Lines\<close>






subsection \<open>Rows\<close>









subsection \<open>The file\<close>








section \<open>Writing and reading back\<close>









section \<open>What the reader checks\<close>







end
